theory Spec2Isabelle
  imports Main "HOL-Library.Sublist"
begin

section \<open>Python values and the operations the script applies to them\<close>

text \<open>
  The script \<^verbatim>\<open>profile_code_reuse_profile.py\<close> handles the responses of the remote
  service as plain Python values. The fragment of Python values modelled here is the
  JSON-like one: \<^verbatim>\<open>None\<close>, booleans, integers, strings, lists and dictionaries. A
  dictionary is an association list read with \<open>map_of\<close>; a Python dictionary holds a key
  at most once.
\<close>

datatype json =
    JNone
  | JBool bool
  | JInt int
  | JStr string
  | JList "json list"
  | JDict "(string \<times> json) list"

text \<open>
  Instances of Python's class \<^verbatim>\<open>Exception\<close>, the ones an \<^verbatim>\<open>except Exception\<close> clause
  catches. \<open>GenericException\<close> is \<^verbatim>\<open>Exception(msg)\<close> as raised at line 27;
  \<open>ClientError\<close> stands for any error the remote service client raises (throttling,
  validation, timeout, ...), with its detail. Signals outside class \<^verbatim>\<open>Exception\<close>
  (\<^verbatim>\<open>KeyboardInterrupt\<close>, \<^verbatim>\<open>SystemExit\<close>) are not errors of a call and are not modelled.
\<close>

datatype py_exception =
    TypeError
  | KeyError
  | AttributeError
  | IndexError
  | ZeroDivisionError
  | GenericException string
  | ClientError string

text \<open>\<^verbatim>\<open>k in x\<close> for a string \<open>k\<close>: key of a dictionary, element of a list, substring of a
  string; any other value is not iterable.\<close>

fun py_in :: "string \<Rightarrow> json \<Rightarrow> py_exception + bool" where
  "py_in k (JDict kvs) = Inr (map_of kvs k \<noteq> None)"
| "py_in k (JList xs) = Inr (List.member xs (JStr k))"
| "py_in k (JStr s) = Inr (sublist k s)"
| "py_in k JNone = Inl TypeError"
| "py_in k (JBool b) = Inl TypeError"
| "py_in k (JInt n) = Inl TypeError"

text \<open>\<^verbatim>\<open>x[k]\<close> for a string \<open>k\<close>: only a dictionary accepts a string subscript.\<close>

fun py_getitem :: "json \<Rightarrow> string \<Rightarrow> py_exception + json" where
  "py_getitem (JDict kvs) k = (case map_of kvs k of None \<Rightarrow> Inl KeyError | Some v \<Rightarrow> Inr v)"
| "py_getitem (JList xs) k = Inl TypeError"
| "py_getitem (JStr s) k = Inl TypeError"
| "py_getitem JNone k = Inl TypeError"
| "py_getitem (JBool b) k = Inl TypeError"
| "py_getitem (JInt n) k = Inl TypeError"

text \<open>\<^verbatim>\<open>x.get(k, d)\<close>: a method of dictionaries only.\<close>

fun py_get :: "json \<Rightarrow> string \<Rightarrow> json \<Rightarrow> py_exception + json" where
  "py_get (JDict kvs) k d = (case map_of kvs k of None \<Rightarrow> Inr d | Some v \<Rightarrow> Inr v)"
| "py_get (JList xs) k d = Inl AttributeError"
| "py_get (JStr s) k d = Inl AttributeError"
| "py_get JNone k d = Inl AttributeError"
| "py_get (JBool b) k d = Inl AttributeError"
| "py_get (JInt n) k d = Inl AttributeError"

text \<open>\<^verbatim>\<open>for c in x\<close>: the elements of a list, the keys of a dictionary, the characters of
  a string.\<close>

fun py_iter :: "json \<Rightarrow> py_exception + json list" where
  "py_iter (JList xs) = Inr xs"
| "py_iter (JDict kvs) = Inr (map (\<lambda>kv. JStr (fst kv)) kvs)"
| "py_iter (JStr s) = Inr (map (\<lambda>c. JStr [c]) s)"
| "py_iter JNone = Inl TypeError"
| "py_iter (JBool b) = Inl TypeError"
| "py_iter (JInt n) = Inl TypeError"

text \<open>\<^verbatim>\<open>x[:50]\<close>: strings and lists are sliced; a dictionary rejects the slice as a key
  (\<^verbatim>\<open>TypeError\<close>, unhashable, up to Python 3.11); the other values are not
  subscriptable.\<close>

fun py_slice50 :: "json \<Rightarrow> py_exception + json" where
  "py_slice50 (JStr s) = Inr (JStr (take 50 s))"
| "py_slice50 (JList xs) = Inr (JList (take 50 xs))"
| "py_slice50 (JDict kvs) = Inl TypeError"
| "py_slice50 JNone = Inl TypeError"
| "py_slice50 (JBool b) = Inl TypeError"
| "py_slice50 (JInt n) = Inl TypeError"

text \<open>Truth value of \<^verbatim>\<open>if x:\<close>.\<close>

fun py_truthy :: "json \<Rightarrow> bool" where
  "py_truthy JNone = False"
| "py_truthy (JBool b) = b"
| "py_truthy (JInt n) = (n \<noteq> 0)"
| "py_truthy (JStr s) = (s \<noteq> [])"
| "py_truthy (JList xs) = (xs \<noteq> [])"
| "py_truthy (JDict kvs) = (kvs \<noteq> [])"

text \<open>Subscript of a Python list by an integer: positions \<open>0\<close> to \<open>len - 1\<close>, positions
  \<open>-len\<close> to \<open>-1\<close> read from the end, \<^verbatim>\<open>IndexError\<close> elsewhere.\<close>

definition py_index :: "'a list \<Rightarrow> int \<Rightarrow> py_exception + 'a" where
  "py_index xs i =
     (if 0 \<le> i \<and> i < int (length xs) then Inr (xs ! nat i)
      else if i < 0 \<and> - int (length xs) \<le> i then Inr (xs ! nat (int (length xs) + i))
      else Inl IndexError)"

section \<open>Response Extractor: \<^verbatim>\<open>parse_converse_response\<close>\<close>

definition no_text :: json where
  "no_text = JStr ''No text response found''"

text \<open>The loop of lines 18 to 20: \<open>Some\<close> is the \<^verbatim>\<open>return\<close> inside the loop, \<open>None\<close> is
  the loop running to its end.\<close>

fun scan_content :: "json list \<Rightarrow> py_exception + json option" where
  "scan_content [] = Inr None"
| "scan_content (content # rest) =
     (case py_in ''text'' content of
        Inl e \<Rightarrow> Inl e
      | Inr True \<Rightarrow>
          (case py_get content ''text'' (JStr '''') of
             Inl e \<Rightarrow> Inl e
           | Inr v \<Rightarrow> Inr (Some v))
      | Inr False \<Rightarrow> scan_content rest)"

text \<open>Lines 16 to 20, the part of the function that reads \<^verbatim>\<open>message\<close>; control falls
  through to the \<^verbatim>\<open>return\<close> of line 21 when no item holds \<^verbatim>\<open>'text'\<close>.\<close>

definition parse_message :: "json \<Rightarrow> py_exception + json" where
  "parse_message message =
     (case py_in ''content'' message of
        Inl e \<Rightarrow> Inl e
      | Inr False \<Rightarrow> Inr no_text
      | Inr True \<Rightarrow>
          (case py_getitem message ''content'' of
             Inl e \<Rightarrow> Inl e
           | Inr cs \<Rightarrow>
               (case py_iter cs of
                  Inl e \<Rightarrow> Inl e
                | Inr items \<Rightarrow>
                    (case scan_content items of
                       Inl e \<Rightarrow> Inl e
                     | Inr (Some v) \<Rightarrow> Inr v
                     | Inr None \<Rightarrow> Inr no_text))))"

definition parse_converse_response :: "json \<Rightarrow> py_exception + json" where
  "parse_converse_response response =
     (case py_in ''output'' response of
        Inl e \<Rightarrow> Inl e
      | Inr False \<Rightarrow> Inr no_text
      | Inr True \<Rightarrow>
          (case py_getitem response ''output'' of
             Inl e \<Rightarrow> Inl e
           | Inr out \<Rightarrow>
               (case py_in ''message'' out of
                  Inl e \<Rightarrow> Inl e
                | Inr False \<Rightarrow> Inr no_text
                | Inr True \<Rightarrow>
                    (case py_getitem out ''message'' of
                       Inl e \<Rightarrow> Inl e
                     | Inr message \<Rightarrow> parse_message message))))"


section \<open>The remote service and the observable behaviour\<close>

text \<open>
  What the script prints, one constructor for each \<^verbatim>\<open>print\<close> call with the values
  interpolated into it. The rendering of floating-point numbers, the date of the
  iteration banner and the elapsed times are not modelled: \<open>LogSuccessRate s i\<close> carries
  the operands of the quotient \<^verbatim>\<open>successful_runs/i\<close> of line 114 and \<open>LogSummaryRate s n\<close>
  those of \<^verbatim>\<open>successful_runs/num_iterations\<close> of line 126.
\<close>

datatype log_line =
    LogCreated json
  | LogErrorCreating py_exception
  | LogResponseText json
  | LogErrorConverse py_exception
  | LogCreatingShared string
  | LogRule
  | LogIteration int
  | LogUsingProfile json
  | LogStarting
  | LogIterationError int py_exception
  | LogProgress int int
  | LogSuccessRate int int
  | LogSummaryTitle
  | LogSummaryRate int int
  | LogTotalRuns int
  | LogSuccessfulRuns int
  | LogFailedRuns int
  | LogTotalTime
  | LogAverageTime

text \<open>The events of a run, in order: lines printed, calls of \<^verbatim>\<open>time.sleep\<close> with their
  argument, and the two remote calls with their arguments.\<close>

datatype event =
    Print log_line
  | Sleep nat
  | CreateCall string string json
  | ConverseCall json json

type_synonym trace = "event list"

text \<open>
  The world outside the script. The outcome of a remote call may depend on everything
  that happened before it, so each remote operation reads the trace so far.
  \<open>has_create\<close> is \<^verbatim>\<open>hasattr(bedrock, 'create_inference_profile')\<close> and \<open>uuid_hex\<close> is
  \<^verbatim>\<open>uuid.uuid4().hex\<close>.
\<close>

record env =
  has_create :: bool
  remote_create :: "trace \<Rightarrow> string \<Rightarrow> string \<Rightarrow> json \<Rightarrow> py_exception + json"
  remote_converse :: "trace \<Rightarrow> json \<Rightarrow> json \<Rightarrow> py_exception + json"
  uuid_hex :: string

section \<open>Profile Provisioner: \<^verbatim>\<open>create_inference_profile\<close>\<close>

text \<open>The body of the \<^verbatim>\<open>try\<close> block, lines 26 to 36.\<close>

definition create_inference_profile_try ::
  "env \<Rightarrow> string \<Rightarrow> string \<Rightarrow> json \<Rightarrow> trace \<Rightarrow> (py_exception + json) \<times> trace" where
  "create_inference_profile_try E profile_name model_arn tags t =
     (if \<not> has_create E
      then (Inl (GenericException
             ''create_inference_profile method not available. Please update boto3: pip install --upgrade boto3''), t)
      else
        (let t1 = t @ [CreateCall profile_name model_arn tags] in
         case remote_create E t profile_name model_arn tags of
           Inl e \<Rightarrow> (Inl e, t1)
         | Inr response \<Rightarrow>
             (case py_get response ''inferenceProfileArn'' (JStr ''Unknown'') of
                Inl e \<Rightarrow> (Inl e, t1)
              | Inr arn \<Rightarrow> (Inr response, t1 @ [Print (LogCreated arn)]))))"

text \<open>The handler of lines 37 to 39 prints the error and raises it again.\<close>

definition create_inference_profile ::
  "env \<Rightarrow> string \<Rightarrow> string \<Rightarrow> json \<Rightarrow> trace \<Rightarrow> (py_exception + json) \<times> trace" where
  "create_inference_profile E profile_name model_arn tags t =
     (case create_inference_profile_try E profile_name model_arn tags t of
        (Inl e, t') \<Rightarrow> (Inl e, t' @ [Print (LogErrorCreating e)])
      | (Inr response, t') \<Rightarrow> (Inr response, t'))"

section \<open>Conversation Client: \<^verbatim>\<open>converse\<close>\<close>

text \<open>The body of the \<^verbatim>\<open>try\<close> block, lines 44 to 51.\<close>

definition converse_try ::
  "env \<Rightarrow> json \<Rightarrow> json \<Rightarrow> trace \<Rightarrow> (py_exception + json) \<times> trace" where
  "converse_try E model_id messages t =
     (let t1 = t @ [ConverseCall model_id messages] in
      case remote_converse E t model_id messages of
        Inl e \<Rightarrow> (Inl e, t1)
      | Inr response \<Rightarrow>
          (case parse_converse_response response of
             Inl e \<Rightarrow> (Inl e, t1)
           | Inr parsed \<Rightarrow>
               (case py_slice50 parsed of
                  Inl e \<Rightarrow> (Inl e, t1)
                | Inr shown \<Rightarrow> (Inr response, t1 @ [Print (LogResponseText shown)]))))"

text \<open>The handler of lines 52 to 54 prints the error and returns \<^verbatim>\<open>None\<close>.\<close>

definition converse ::
  "env \<Rightarrow> json \<Rightarrow> json \<Rightarrow> trace \<Rightarrow> (py_exception + json) \<times> trace" where
  "converse E model_id messages t =
     (case converse_try E model_id messages t of
        (Inl e, t') \<Rightarrow> (Inr JNone, t' @ [Print (LogErrorConverse e)])
      | (Inr response, t') \<Rightarrow> (Inr response, t'))"

section \<open>\<^verbatim>\<open>create_shared_profile\<close>\<close>

definition profile_tags :: json where
  "profile_tags =
     JList [JDict [(''key'', JStr ''dept''), (''value'', JStr ''Dev'')],
            JDict [(''key'', JStr ''project''), (''value'', JStr ''cost-demo'')]]"

definition base_model_arn :: string where
  "base_model_arn = ''arn:aws:bedrock:us-east-1::foundation-model/amazon.nova-micro-v1:0''"

definition profile_name_of :: "env \<Rightarrow> string" where
  "profile_name_of E = ''cost_demo_shared_profile_'' @ take 8 (uuid_hex E)"

definition create_shared_profile :: "env \<Rightarrow> trace \<Rightarrow> (py_exception + json) \<times> trace" where
  "create_shared_profile E t =
     (let profile_name = profile_name_of E;
          t1 = t @ [Print (LogCreatingShared profile_name)] in
      case create_inference_profile E profile_name base_model_arn profile_tags t1 of
        (Inl e, t') \<Rightarrow> (Inl e, t')
      | (Inr profile_response, t') \<Rightarrow> (py_getitem profile_response ''inferenceProfileArn'', t'))"

section \<open>Iteration Runner: \<^verbatim>\<open>run_test\<close>\<close>

definition prompts :: "string list" where
  "prompts =
     [''Write a comprehensive technical documentation for deploying a multi-region, highly available microservices architecture on AWS.'',
      ''Analyze the current state of cloud computing in enterprise environments.'',
      ''Compare and contrast AWS container services: ECS, EKS, App Runner, Lambda, and Fargate.'',
      ''Design a real-time analytics platform for IoT devices at scale.'']"

text \<open>Line 81. Python's \<^verbatim>\<open>%\<close> with a positive modulus is the floor remainder, as \<open>mod\<close> on
  \<open>int\<close> is.\<close>

definition select_prompt :: "int \<Rightarrow> py_exception + string" where
  "select_prompt iteration = py_index prompts (iteration mod int (length prompts))"

text \<open>Line 82.\<close>

definition user_message :: "string \<Rightarrow> json" where
  "user_message prompt =
     JList [JDict [(''role'', JStr ''user''), (''content'', JList [JDict [(''text'', JStr prompt)]])]]"

definition run_test :: "env \<Rightarrow> int \<Rightarrow> json \<Rightarrow> trace \<Rightarrow> (py_exception + json) \<times> trace" where
  "run_test E iteration model_id t =
     (let t1 = t @ [Print LogRule, Print (LogIteration iteration), Print LogRule,
                    Print (LogUsingProfile model_id)] in
      case select_prompt iteration of
        Inl e \<Rightarrow> (Inl e, t1)
      | Inr prompt \<Rightarrow>
          (case converse E model_id (user_message prompt) t1 of
             (Inl e, t2) \<Rightarrow> (Inl e, t2)
           | (Inr response, t2) \<Rightarrow> (Inr response, t2 @ [Sleep 1])))"

section \<open>Benchmark Orchestrator: \<^verbatim>\<open>main\<close>\<close>

record counters =
  successful_runs :: int
  failed_runs :: int

text \<open>Lines 100 to 110: the call of \<^verbatim>\<open>run_test\<close> under \<^verbatim>\<open>try\<close>, the classification of
  its result, and the handler that counts an exception as a failure.\<close>

definition classify ::
  "env \<Rightarrow> json \<Rightarrow> int \<Rightarrow> counters \<Rightarrow> trace \<Rightarrow> counters \<times> trace" where
  "classify E shared_model_id i c t =
     (case run_test E i shared_model_id t of
        (Inr response, t1) \<Rightarrow>
          (if py_truthy response
           then (c\<lparr>successful_runs := successful_runs c + 1\<rparr>, t1)
           else (c\<lparr>failed_runs := failed_runs c + 1\<rparr>, t1))
      | (Inl e, t1) \<Rightarrow>
          (c\<lparr>failed_runs := failed_runs c + 1\<rparr>, t1 @ [Print (LogIterationError i e)]))"

text \<open>Lines 112 to 114. The quotient \<^verbatim>\<open>successful_runs/i\<close> of line 114 raises when \<open>i\<close> is
  zero, after line 113 has printed.\<close>

definition report_progress ::
  "int \<Rightarrow> int \<Rightarrow> counters \<Rightarrow> trace \<Rightarrow> (py_exception + unit) \<times> trace" where
  "report_progress num_iterations i c t =
     (if i mod 5 = 0
      then
        (let t1 = t @ [Print (LogProgress i num_iterations)] in
         if i = 0 then (Inl ZeroDivisionError, t1)
         else (Inr (), t1 @ [Print (LogSuccessRate (successful_runs c) i)]))
      else (Inr (), t))"

text \<open>One pass through the body of the \<^verbatim>\<open>for\<close> loop, lines 100 to 117, for the loop
  variable \<open>i\<close>; \<open>num_iterations\<close> is the local constant of \<^verbatim>\<open>main\<close>.\<close>

definition loop_body ::
  "env \<Rightarrow> int \<Rightarrow> json \<Rightarrow> int \<Rightarrow> counters \<Rightarrow> trace \<Rightarrow> (py_exception + counters) \<times> trace" where
  "loop_body E num_iterations shared_model_id i c t =
     (case classify E shared_model_id i c t of
        (c1, t1) \<Rightarrow>
          (case report_progress num_iterations i c1 t1 of
             (Inl e, t2) \<Rightarrow> (Inl e, t2)
           | (Inr u, t2) \<Rightarrow>
               (Inr c1, if i < num_iterations then t2 @ [Sleep 2] else t2)))"

text \<open>The \<^verbatim>\<open>for\<close> loop over the values of the range; an exception that leaves the body
  ends the loop.\<close>

fun for_loop ::
  "env \<Rightarrow> int \<Rightarrow> json \<Rightarrow> int list \<Rightarrow> counters \<Rightarrow> trace \<Rightarrow> (py_exception + counters) \<times> trace" where
  "for_loop E num_iterations shared_model_id [] c t = (Inr c, t)"
| "for_loop E num_iterations shared_model_id (i # rest) c t =
     (case loop_body E num_iterations shared_model_id i c t of
        (Inl e, t') \<Rightarrow> (Inl e, t')
      | (Inr c', t') \<Rightarrow> for_loop E num_iterations shared_model_id rest c' t')"

text \<open>Lines 119 to 129. The success rate of line 126 divides by \<^verbatim>\<open>num_iterations\<close>.\<close>

definition summary :: "int \<Rightarrow> counters \<Rightarrow> trace \<Rightarrow> (py_exception + unit) \<times> trace" where
  "summary num_iterations c t =
     (let t1 = t @ [Print LogRule, Print LogSummaryTitle, Print LogRule,
                    Print (LogTotalRuns num_iterations),
                    Print (LogSuccessfulRuns (successful_runs c)),
                    Print (LogFailedRuns (failed_runs c))] in
      if num_iterations = 0 then (Inl ZeroDivisionError, t1)
      else (Inr (), t1 @ [Print (LogSummaryRate (successful_runs c) num_iterations),
                          Print LogTotalTime, Print LogAverageTime, Print LogRule]))"

text \<open>\<^verbatim>\<open>main\<close> with its local constant \<^verbatim>\<open>num_iterations\<close> as a parameter;
  \<^verbatim>\<open>range(1, num_iterations + 1)\<close> is \<open>[1..num_iterations]\<close>.\<close>

definition main_with :: "int \<Rightarrow> env \<Rightarrow> trace \<Rightarrow> (py_exception + unit) \<times> trace" where
  "main_with num_iterations E t =
     (let t0 = t @ [Print LogStarting] in
      case create_shared_profile E t0 of
        (Inl e, t1) \<Rightarrow> (Inl e, t1)
      | (Inr shared_model_id, t1) \<Rightarrow>
          (case for_loop E num_iterations shared_model_id [1..num_iterations]
                  \<lparr>successful_runs = 0, failed_runs = 0\<rparr> t1 of
             (Inl e, t2) \<Rightarrow> (Inl e, t2)
           | (Inr c, t2) \<Rightarrow> summary num_iterations c t2))"

definition main :: "env \<Rightarrow> trace \<Rightarrow> (py_exception + unit) \<times> trace" where
  "main E t = main_with 50 E t"

section \<open>Vocabulary of the properties\<close>

text \<open>Classes of events.\<close>

fun is_converse_call :: "event \<Rightarrow> bool" where
  "is_converse_call (ConverseCall model_id messages) = True"
| "is_converse_call (Print l) = False"
| "is_converse_call (Sleep d) = False"
| "is_converse_call (CreateCall name arn tags) = False"

fun is_create_call :: "event \<Rightarrow> bool" where
  "is_create_call (CreateCall name arn tags) = True"
| "is_create_call (Print l) = False"
| "is_create_call (Sleep d) = False"
| "is_create_call (ConverseCall model_id messages) = False"

text \<open>The events pacing is about: the remote converse calls and the delays.\<close>

fun is_pacing :: "event \<Rightarrow> bool" where
  "is_pacing (ConverseCall model_id messages) = True"
| "is_pacing (Sleep d) = True"
| "is_pacing (Print l) = False"
| "is_pacing (CreateCall name arn tags) = False"

text \<open>The two lines of a progress report (lines 113 and 114).\<close>

fun is_progress :: "event \<Rightarrow> bool" where
  "is_progress (Print (LogProgress i n)) = True"
| "is_progress (Print (LogSuccessRate s i)) = True"
| "is_progress e = False"

text \<open>The iteration a progress report announces (line 113).\<close>

fun reported_iteration :: "event \<Rightarrow> int option" where
  "reported_iteration (Print (LogProgress i n)) = Some i"
| "reported_iteration e = None"

text \<open>The lines of the final summary that carry its figures (lines 121 to 128).\<close>

fun is_summary :: "event \<Rightarrow> bool" where
  "is_summary (Print LogSummaryTitle) = True"
| "is_summary (Print (LogTotalRuns n)) = True"
| "is_summary (Print (LogSuccessfulRuns s)) = True"
| "is_summary (Print (LogFailedRuns f)) = True"
| "is_summary (Print (LogSummaryRate s n)) = True"
| "is_summary (Print LogTotalTime) = True"
| "is_summary (Print LogAverageTime) = True"
| "is_summary e = False"

text \<open>The pacing events one iteration is expected to leave: its converse call, the
  delay of one unit, and the delay of two units unless the iteration is the last.\<close>

definition iteration_pacing :: "int \<Rightarrow> json \<Rightarrow> int \<Rightarrow> event list" where
  "iteration_pacing num_iterations model_id i =
     [ConverseCall model_id (user_message (prompts ! nat (i mod 4))), Sleep 1]
       @ (if i < num_iterations then [Sleep 2] else [])"

text \<open>
  The response shape of section 4.1 of the specification, with any field absent: a
  dictionary whose \<^verbatim>\<open>output\<close>, when present, is a dictionary, whose \<^verbatim>\<open>message\<close>, when
  present, is a dictionary, whose \<^verbatim>\<open>content\<close>, when present, is a list of
  dictionaries.
\<close>

fun is_dict :: "json \<Rightarrow> bool" where
  "is_dict (JDict kvs) = True"
| "is_dict v = False"

fun field :: "string \<Rightarrow> json \<Rightarrow> json option" where
  "field k (JDict kvs) = map_of kvs k"
| "field k v = None"

fun is_dict_list :: "json \<Rightarrow> bool" where
  "is_dict_list (JList xs) = list_all is_dict xs"
| "is_dict_list v = False"

definition well_shaped :: "json \<Rightarrow> bool" where
  "well_shaped response =
     (is_dict response \<and>
      (case field ''output'' response of
         None \<Rightarrow> True
       | Some out \<Rightarrow>
           is_dict out \<and>
           (case field ''message'' out of
              None \<Rightarrow> True
            | Some message \<Rightarrow>
                is_dict message \<and>
                (case field ''content'' message of
                   None \<Rightarrow> True
                 | Some cs \<Rightarrow> is_dict_list cs))))"

text \<open>The content items of a response, empty when a field on the way is absent, and the
  text fragments they hold, in order.\<close>

definition content_items :: "json \<Rightarrow> json list" where
  "content_items response =
     (case field ''output'' response of
        None \<Rightarrow> []
      | Some out \<Rightarrow>
          (case field ''message'' out of
             None \<Rightarrow> []
           | Some message \<Rightarrow>
               (case field ''content'' message of
                  Some (JList xs) \<Rightarrow> xs
                | _ \<Rightarrow> [])))"

definition text_fragments :: "json \<Rightarrow> json list" where
  "text_fragments response = List.map_filter (field ''text'') (content_items response)"

text \<open>The extractor as the specification words it: the first available text fragment,
  or the sentinel.\<close>

definition first_text_or_sentinel :: "json \<Rightarrow> json" where
  "first_text_or_sentinel response =
     (case text_fragments response of [] \<Rightarrow> no_text | v # vs \<Rightarrow> v)"

text \<open>The number of successful runs counted once iteration \<open>i\<close> of a run is complete:
  the counter the loop holds after the passes for \<open>1, ..., i\<close>.\<close>

definition successes_after :: "env \<Rightarrow> int \<Rightarrow> json \<Rightarrow> trace \<Rightarrow> int \<Rightarrow> int" where
  "successes_after E num_iterations model_id t i =
     (case fst (for_loop E num_iterations model_id [1..i]
                  \<lparr>successful_runs = 0, failed_runs = 0\<rparr> t) of
        Inr c \<Rightarrow> successful_runs c
      | Inl e \<Rightarrow> 0)"

text \<open>The progress report expected of iteration \<open>i\<close>: none unless 5 divides \<open>i\<close>.\<close>

definition iteration_progress :: "env \<Rightarrow> int \<Rightarrow> json \<Rightarrow> trace \<Rightarrow> int \<Rightarrow> event list" where
  "iteration_progress E num_iterations model_id t i =
     (if i mod 5 = 0
      then [Print (LogProgress i num_iterations),
            Print (LogSuccessRate (successes_after E num_iterations model_id t i) i)]
      else [])"

section \<open>Sample environments\<close>

definition ok_response :: json where
  "ok_response =
     JDict [(''output'', JDict [(''message'',
       JDict [(''role'', JStr ''assistant''),
              (''content'', JList [JDict [(''text'', JStr ''Hello'')]])])])]"

definition ok_arn :: json where
  "ok_arn = JStr ''arn:aws:bedrock:us-east-1:111122223333:application-inference-profile/p1''"

definition ok_profile :: json where
  "ok_profile = JDict [(''inferenceProfileArn'', ok_arn)]"

text \<open>A service that accepts every call.\<close>

definition steady_env :: env where
  "steady_env =
     \<lparr>has_create = True,
      remote_create = (\<lambda>t name arn tags. Inr ok_profile),
      remote_converse = (\<lambda>t model_id messages. Inr ok_response),
      uuid_hex = ''0123456789abcdef0123456789abcdef''\<rparr>"

text \<open>A service whose second converse call is throttled.\<close>

definition flaky_env :: env where
  "flaky_env =
     steady_env\<lparr>remote_converse := (\<lambda>t model_id messages.
        if length (filter is_converse_call t) = 1
        then Inl (ClientError ''ThrottlingException'') else Inr ok_response)\<rparr>"

text \<open>A service that rejects the creation of the profile.\<close>

definition rejecting_env :: env where
  "rejecting_env =
     steady_env\<lparr>remote_create := (\<lambda>t name arn tags.
        Inl (ClientError ''ServiceQuotaExceededException''))\<rparr>"

text \<open>A service whose creation response holds no \<^verbatim>\<open>inferenceProfileArn\<close>.\<close>

definition arnless_env :: env where
  "arnless_env =
     steady_env\<lparr>remote_create := (\<lambda>t name arn tags.
        Inr (JDict [(''status'', JStr ''ACTIVE'')]))\<rparr>"

text \<open>A service that answers every converse call with an empty dictionary.\<close>

definition empty_response_env :: env where
  "empty_response_env =
     steady_env\<lparr>remote_converse := (\<lambda>t model_id messages. Inr (JDict []))\<rparr>"

section \<open>Auxiliary facts\<close>

lemma scan_content_dicts:
  "list_all is_dict xs \<Longrightarrow>
   scan_content xs = Inr (case List.map_filter (field ''text'') xs of [] \<Rightarrow> None | v # vs \<Rightarrow> Some v)"
proof (induction xs)
  case Nil
  then show ?case by simp
next
  case (Cons x xs)
  then obtain kvs where x: "x = JDict kvs" by (cases x) auto
  show ?case
  proof (cases "map_of kvs ''text''")
    case None
    with Cons x show ?thesis by simp
  next
    case (Some v)
    with Cons x show ?thesis by simp
  qed
qed

lemma is_dictE: "is_dict v \<Longrightarrow> (\<And>kvs. v = JDict kvs \<Longrightarrow> P) \<Longrightarrow> P"
  by (cases v) auto

lemma is_dict_listE: "is_dict_list v \<Longrightarrow> (\<And>xs. v = JList xs \<Longrightarrow> list_all is_dict xs \<Longrightarrow> P) \<Longrightarrow> P"
  by (cases v) auto

lemma parse_message_shaped:
  assumes "is_dict message"
    and "case field ''content'' message of None \<Rightarrow> True | Some cs \<Rightarrow> is_dict_list cs"
  shows "parse_message message =
     Inr (case List.map_filter (field ''text'')
                 (case field ''content'' message of Some (JList xs) \<Rightarrow> xs | _ \<Rightarrow> []) of
            [] \<Rightarrow> no_text | v # vs \<Rightarrow> v)"
proof -
  from assms(1) obtain kvs where m: "message = JDict kvs" by (rule is_dictE)
  show ?thesis
  proof (cases "map_of kvs ''content''")
    case None
    with m show ?thesis by (simp add: parse_message_def)
  next
    case (Some cs)
    with assms(2) m have "is_dict_list cs" by simp
    then obtain xs where cs: "cs = JList xs" and xs: "list_all is_dict xs"
      by (rule is_dict_listE)
    from m Some cs show ?thesis
      by (simp add: parse_message_def scan_content_dicts [OF xs] split: list.splits)
  qed
qed

lemma select_prompt_value: "select_prompt i = Inr (prompts ! nat (i mod 4))"
proof -
  have "0 \<le> i mod 4" and "i mod 4 < 4" by simp_all
  then show ?thesis
    by (simp add: select_prompt_def py_index_def prompts_def)
qed

lemma converse_returns:
  "\<exists>r l. converse E model_id messages t = (Inr r, t @ [ConverseCall model_id messages, Print l])
     \<and> \<not> is_progress (Print l)"
  by (auto simp: converse_def converse_try_def Let_def split: sum.splits)

lemma run_test_returns:
  "\<exists>r l. run_test E i model_id t =
     (Inr r, t @ [Print LogRule, Print (LogIteration i), Print LogRule,
                  Print (LogUsingProfile model_id),
                  ConverseCall model_id (user_message (prompts ! nat (i mod 4))),
                  Print l, Sleep 1])
     \<and> \<not> is_progress (Print l)"
proof -
  obtain r l where
    "converse E model_id (user_message (prompts ! nat (i mod 4)))
       (t @ [Print LogRule, Print (LogIteration i), Print LogRule, Print (LogUsingProfile model_id)])
     = (Inr r, (t @ [Print LogRule, Print (LogIteration i), Print LogRule, Print (LogUsingProfile model_id)])
          @ [ConverseCall model_id (user_message (prompts ! nat (i mod 4))), Print l])"
    and "\<not> is_progress (Print l)"
    using converse_returns by blast
  then show ?thesis
    by (simp add: run_test_def select_prompt_value Let_def)
qed

lemma classify_run_test:
  "run_test E i model_id t = (Inr r, t') \<Longrightarrow>
   classify E model_id i c t =
     (if py_truthy r then c\<lparr>successful_runs := successful_runs c + 1\<rparr>
      else c\<lparr>failed_runs := failed_runs c + 1\<rparr>, t')"
  by (simp add: classify_def)

lemma classify_counts:
  "classify E model_id i c t = (c', t') \<Longrightarrow>
   (successful_runs c' = successful_runs c + 1 \<and> failed_runs c' = failed_runs c) \<or>
   (successful_runs c' = successful_runs c \<and> failed_runs c' = failed_runs c + 1)"
  by (auto simp: classify_def split: prod.splits sum.splits if_splits)

lemma classify_pacing:
  "classify E model_id i c t = (c', t') \<Longrightarrow>
   filter is_pacing t' =
     filter is_pacing t @ [ConverseCall model_id (user_message (prompts ! nat (i mod 4))), Sleep 1]"
  using run_test_returns [of E i model_id t]
  by (auto simp: classify_def split: if_splits)

lemma classify_progress:
  "classify E model_id i c t = (c', t') \<Longrightarrow> filter is_progress t' = filter is_progress t"
  using run_test_returns [of E i model_id t]
  by (auto simp: classify_def split: if_splits)

lemma report_progress_ok:
  "i \<noteq> 0 \<Longrightarrow>
   report_progress n i c t =
     (Inr (), t @ (if i mod 5 = 0
                   then [Print (LogProgress i n), Print (LogSuccessRate (successful_runs c) i)]
                   else []))"
  by (simp add: report_progress_def)

lemma loop_body_ok:
  assumes "i \<noteq> 0"
  shows "\<exists>c' t1. classify E model_id i c t = (c', t1) \<and>
     loop_body E n model_id i c t =
       (Inr c', t1 @ (if i mod 5 = 0
                   then [Print (LogProgress i n), Print (LogSuccessRate (successful_runs c') i)]
                   else [])
                @ (if i < n then [Sleep 2] else []))"
  using assms by (cases "classify E model_id i c t") (simp add: loop_body_def report_progress_ok)

lemma loop_body_counts:
  assumes "i \<noteq> 0" and "loop_body E n model_id i c t = (Inr c', t')"
  shows "(successful_runs c' = successful_runs c + 1 \<and> failed_runs c' = failed_runs c) \<or>
         (successful_runs c' = successful_runs c \<and> failed_runs c' = failed_runs c + 1)"
  using loop_body_ok [OF assms(1), of E model_id c t n] assms(2) classify_counts 
  by (metis Pair_inject sum.inject(2))

lemma loop_body_pacing:
  assumes "i \<noteq> 0" and "loop_body E n model_id i c t = (r, t')"
  shows "filter is_pacing t' = filter is_pacing t @ iteration_pacing n model_id i"
proof -
  from loop_body_ok [OF assms(1), of E model_id c t n] assms(2)
  obtain c' t1 where cl: "classify E model_id i c t = (c', t1)"
    and t': "t' = t1 @ (if i mod 5 = 0
                   then [Print (LogProgress i n), Print (LogSuccessRate (successful_runs c') i)]
                   else [])
                @ (if i < n then [Sleep 2] else [])"
    by auto
  from classify_pacing [OF cl] t' show ?thesis
    by (simp add: iteration_pacing_def)
qed

lemma loop_body_progress:
  assumes "i \<noteq> 0" and "loop_body E n model_id i c t = (Inr c', t')"
  shows "filter is_progress t' = filter is_progress t @
           (if i mod 5 = 0
            then [Print (LogProgress i n), Print (LogSuccessRate (successful_runs c') i)]
            else [])"
proof -
  from loop_body_ok [OF assms(1), of E model_id c t n] assms(2)
  obtain t1 where cl: "classify E model_id i c t = (c', t1)"
    and t': "t' = t1 @ (if i mod 5 = 0
                   then [Print (LogProgress i n), Print (LogSuccessRate (successful_runs c') i)]
                   else [])
                @ (if i < n then [Sleep 2] else [])"
    by auto
  from classify_progress [OF cl] t' show ?thesis
    by simp
qed

lemma loop_body_total:
  "i \<noteq> 0 \<Longrightarrow> \<exists>c' t'. loop_body E n model_id i c t = (Inr c', t')"
  using loop_body_ok [of i E model_id c t n] by blast

lemma for_loop_total:
  "0 \<notin> set xs \<Longrightarrow> \<exists>c' t'. for_loop E n model_id xs c t = (Inr c', t')"
proof (induction xs arbitrary: c t)
  case Nil
  show ?case by simp
next
  case (Cons i xs)
  then have "i \<noteq> 0" by auto
  then obtain c1 t1 where "loop_body E n model_id i c t = (Inr c1, t1)"
    using loop_body_total by blast
  with Cons show ?case by simp
qed

lemma for_loop_counts:
  "0 \<notin> set xs \<Longrightarrow> for_loop E n model_id xs c t = (Inr c', t') \<Longrightarrow>
   successful_runs c' + failed_runs c' = successful_runs c + failed_runs c + int (length xs)"
proof (induction xs arbitrary: c t)
  case Nil
  then show ?case by simp
next
  case (Cons i xs)
  then have i: "i \<noteq> 0" by auto
  then obtain c1 t1 where b: "loop_body E n model_id i c t = (Inr c1, t1)"
    using loop_body_total by blast
  with Cons.prems have "for_loop E n model_id xs c1 t1 = (Inr c', t')" by simp
  with Cons have "successful_runs c' + failed_runs c' =
      successful_runs c1 + failed_runs c1 + int (length xs)" by auto
  with loop_body_counts [OF i b] show ?case by auto
qed

lemma for_loop_pacing:
  "0 \<notin> set xs \<Longrightarrow> for_loop E n model_id xs c t = (r, t') \<Longrightarrow>
   filter is_pacing t' = filter is_pacing t @ concat (map (iteration_pacing n model_id) xs)"
proof (induction xs arbitrary: c t)
  case Nil
  then show ?case by simp
next
  case (Cons i xs)
  then have i: "i \<noteq> 0" by auto
  then obtain c1 t1 where b: "loop_body E n model_id i c t = (Inr c1, t1)"
    using loop_body_total by blast
  with Cons.prems have "for_loop E n model_id xs c1 t1 = (r, t')" by simp
  with Cons have "filter is_pacing t' =
      filter is_pacing t1 @ concat (map (iteration_pacing n model_id) xs)" by auto
  with loop_body_pacing [OF i b] show ?case by simp
qed

lemma for_loop_append:
  "for_loop E n model_id (xs @ ys) c t =
     (case for_loop E n model_id xs c t of
        (Inl e, t') \<Rightarrow> (Inl e, t')
      | (Inr c', t') \<Rightarrow> for_loop E n model_id ys c' t')"
  by (induction xs arbitrary: c t) (auto split: prod.splits sum.splits)

lemma converse_calls_of_pacing:
  "filter is_converse_call t = filter is_converse_call (filter is_pacing t)"
proof -
  have "\<And>e. (is_pacing e \<and> is_converse_call e) = is_converse_call e"
    by (case_tac e) simp_all
  then show ?thesis by simp
qed

lemma converse_calls_iteration_pacing:
  "length (filter is_converse_call (concat (map (iteration_pacing n model_id) xs))) = length xs"
  by (induction xs) (simp_all add: iteration_pacing_def)

lemma for_loop_converse_calls:
  assumes "0 \<notin> set xs" and "for_loop E n model_id xs c t = (r, t')"
  shows "length (filter is_converse_call t') = length (filter is_converse_call t) + length xs"
proof -
  have "filter is_converse_call t' = filter is_converse_call (filter is_pacing t')"
    by (rule converse_calls_of_pacing)
  also have "\<dots> = filter is_converse_call (filter is_pacing t)
      @ filter is_converse_call (concat (map (iteration_pacing n model_id) xs))"
    using for_loop_pacing [OF assms] by simp
  finally show ?thesis
    using converse_calls_of_pacing [of t] converse_calls_iteration_pacing [of n model_id xs]
    by simp
qed

lemma range_no_zero: "0 \<notin> set [1..n]"
  by simp

lemma provisioning_rejected:
  assumes "has_create E"
    and "remote_create E (t @ [Print LogStarting, Print (LogCreatingShared (profile_name_of E))])
           (profile_name_of E) base_model_arn profile_tags = Inl e"
  shows "create_shared_profile E (t @ [Print LogStarting]) =
     (Inl e, t @ [Print LogStarting, Print (LogCreatingShared (profile_name_of E)),
                  CreateCall (profile_name_of E) base_model_arn profile_tags,
                  Print (LogErrorCreating e)])"
  using assms
  by (simp add: create_shared_profile_def create_inference_profile_def
      create_inference_profile_try_def Let_def)

lemma provisioning_without_arn:
  assumes "has_create E"
    and "remote_create E (t @ [Print LogStarting, Print (LogCreatingShared (profile_name_of E))])
           (profile_name_of E) base_model_arn profile_tags = Inr (JDict kvs)"
    and "map_of kvs ''inferenceProfileArn'' = None"
  shows "create_shared_profile E (t @ [Print LogStarting]) =
     (Inl KeyError, t @ [Print LogStarting, Print (LogCreatingShared (profile_name_of E)),
                  CreateCall (profile_name_of E) base_model_arn profile_tags,
                  Print (LogCreated (JStr ''Unknown''))])"
  using assms
  by (simp add: create_shared_profile_def create_inference_profile_def
      create_inference_profile_try_def Let_def)

lemma main_with_provisioning_failure:
  "create_shared_profile E (t @ [Print LogStarting]) = (Inl e, t') \<Longrightarrow>
   main_with n E t = (Inl e, t')"
  by (simp add: main_with_def Let_def)

lemma loop_body_classifies:
  assumes "i \<noteq> 0" and "run_test E i model_id t = (Inr r, t1)"
  shows "fst (loop_body E n model_id i c t) =
     Inr (if py_truthy r then c\<lparr>successful_runs := successful_runs c + 1\<rparr>
          else c\<lparr>failed_runs := failed_runs c + 1\<rparr>)"
  using loop_body_ok [OF assms(1), of E model_id c t n] classify_run_test [OF assms(2), of c]
  by auto

lemma run_test_converse:
  "fst (run_test E i model_id t) =
   fst (converse E model_id (user_message (prompts ! nat (i mod 4)))
          (t @ [Print LogRule, Print (LogIteration i), Print LogRule,
                Print (LogUsingProfile model_id)]))"
  by (simp add: run_test_def select_prompt_value Let_def split: prod.splits sum.splits)

lemma converse_sentinel:
  assumes "remote_converse E t model_id messages = Inr response"
    and "parse_converse_response response = Inr no_text"
  shows "fst (converse E model_id messages t) = Inr response"
  using assms by (simp add: converse_def converse_try_def no_text_def Let_def)

lemma for_loop_snoc:
  assumes "for_loop E n model_id xs c t = (Inr c1, t1)"
  shows "for_loop E n model_id (xs @ [i]) c t =
     (case loop_body E n model_id i c1 t1 of (Inl e, t') \<Rightarrow> (Inl e, t') | (Inr c', t') \<Rightarrow> (Inr c', t'))"
  using assms by (simp add: for_loop_append split: prod.splits sum.splits)

lemma upto_Suc_nat: "[1..int (Suc k)] = [1..int k] @ [int k + 1]"
  using upto_rec2 [of 1 "int (Suc k)"] by simp

lemma for_loop_progress_nat:
  "filter is_progress (snd (for_loop E n model_id [1..int k]
       \<lparr>successful_runs = 0, failed_runs = 0\<rparr> t)) =
   filter is_progress t @ concat (map (iteration_progress E n model_id t) [1..int k])"
proof (induction k)
  case 0
  show ?case by simp
next
  case (Suc k)
  let ?c0 = "\<lparr>successful_runs = 0, failed_runs = 0\<rparr>"
  obtain ck tk where pre: "for_loop E n model_id [1..int k] ?c0 t = (Inr ck, tk)"
    using for_loop_total [OF range_no_zero] by blast
  have nz: "int k + 1 \<noteq> 0" by simp
  obtain c' t' where body: "loop_body E n model_id (int k + 1) ck tk = (Inr c', t')"
    using loop_body_total [OF nz] by blast
  from for_loop_snoc [OF pre, of "int k + 1"] body
  have whole: "for_loop E n model_id [1..int (Suc k)] ?c0 t = (Inr c', t')"
    by (simp only: upto_Suc_nat prod.case sum.case)
  have "int k + 1 = int (Suc k)" by simp
  with whole have s: "successes_after E n model_id t (int k + 1) = successful_runs c'"
    by (simp only: successes_after_def fst_conv sum.case)
  from loop_body_progress [OF nz body] s
  have "filter is_progress t' =
      filter is_progress tk @ iteration_progress E n model_id t (int k + 1)"
    by (simp add: iteration_progress_def)
  with Suc pre whole show ?case
    by (simp only: upto_Suc_nat snd_conv map_append concat_append list.map concat.simps
        append_Nil2 append_assoc)
qed

lemma for_loop_progress:
  "filter is_progress (snd (for_loop E n model_id [1..n]
       \<lparr>successful_runs = 0, failed_runs = 0\<rparr> t)) =
   filter is_progress t @ concat (map (iteration_progress E n model_id t) [1..n])"
proof (cases "0 \<le> n")
  case True
  then have "n = int (nat n)" by simp
  then obtain k where n: "n = int k" ..
  show ?thesis unfolding n by (rule for_loop_progress_nat)
next
  case False
  then show ?thesis by simp
qed

lemma reported_iteration_progress:
  "List.map_filter reported_iteration t = List.map_filter reported_iteration (filter is_progress t)"
proof (induction t)
  case Nil
  show ?case by simp
next
  case (Cons e t)
  have "\<not> is_progress e \<Longrightarrow> reported_iteration e = None"
    by (cases e rule: is_progress.cases) simp_all
  with Cons show ?case by (cases "is_progress e") (simp_all split: option.splits)
qed

lemma map_filter_append: "List.map_filter f (xs @ ys) = List.map_filter f xs @ List.map_filter f ys"
  by (simp add: List.map_filter_def)

lemma reported_iteration_expected:
  "List.map_filter reported_iteration (concat (map (iteration_progress E n model_id t) xs)) =
   filter (\<lambda>i. i mod 5 = 0) xs"
  by (induction xs) (simp_all add: iteration_progress_def map_filter_append)

lemma range_split: "0 \<le> k \<Longrightarrow> k \<le> n \<Longrightarrow> [1..n] = [1..k] @ [k + 1..n]"
proof (cases "k = 0")
  case True
  then show ?thesis by simp
next
  case False
  assume "0 \<le> k" and "k \<le> n"
  with False have "1 \<le> k" by simp
  from upto_split2 [OF this \<open>k \<le> n\<close>] show ?thesis .
qed

text \<open>The runs of the sample environments.\<close>

lemma flaky_profile:
  "create_shared_profile flaky_env ([] @ [Print LogStarting]) =
     (Inr ok_arn,
      [Print LogStarting, Print (LogCreatingShared (profile_name_of flaky_env)),
       CreateCall (profile_name_of flaky_env) base_model_arn profile_tags,
       Print (LogCreated ok_arn)])"
  by (simp add: create_shared_profile_def create_inference_profile_def
      create_inference_profile_try_def flaky_env_def steady_env_def ok_profile_def Let_def)

lemma steady_run_of_four:
  "filter is_summary (snd (main_with 4 steady_env [])) =
     [Print LogSummaryTitle, Print (LogTotalRuns 4), Print (LogSuccessfulRuns 4),
      Print (LogFailedRuns 0), Print (LogSummaryRate 4 4), Print LogTotalTime,
      Print LogAverageTime]"
  by (simp add: main_with_def steady_env_def create_shared_profile_def
      create_inference_profile_def create_inference_profile_try_def ok_profile_def upto_rec1
      loop_body_def classify_def run_test_def converse_def converse_try_def select_prompt_value
      parse_converse_response_def parse_message_def ok_response_def report_progress_def
      summary_def Let_def)

lemma flaky_run_of_four:
  "filter is_summary (snd (main_with 4 flaky_env [])) =
     [Print LogSummaryTitle, Print (LogTotalRuns 4), Print (LogSuccessfulRuns 3),
      Print (LogFailedRuns 1), Print (LogSummaryRate 3 4), Print LogTotalTime,
      Print LogAverageTime]"
  by (simp add: main_with_def flaky_env_def steady_env_def create_shared_profile_def
      create_inference_profile_def create_inference_profile_try_def ok_profile_def upto_rec1
      loop_body_def classify_def run_test_def converse_def converse_try_def select_prompt_value
      parse_converse_response_def parse_message_def ok_response_def report_progress_def
      summary_def Let_def)

section \<open>The properties of the specification\<close>


text \<open>
  Claim C1. Whatever the service does at a converse call, \<open>converse\<close> returns normally:
  no exception leaves it. When the remote call raises, the handler turns the error into
  the return value \<^verbatim>\<open>None\<close>. Consequently the loop over \<^verbatim>\<open>range(1, n + 1)\<close> is never
  cut short: it ends normally, having made one converse call for each of its \<open>n\<close>
  iterations.
\<close>

theorem converse_errors_never_escape:
  "(\<exists>r t'. converse E model_id messages t = (Inr r, t'))
   \<and> (remote_converse E t model_id messages = Inl e \<longrightarrow>
        fst (converse E model_id messages t) = Inr JNone)
   \<and> (\<exists>c' t'. for_loop E n model_id [1..n] c t = (Inr c', t')
         \<and> length (filter is_converse_call t') = length (filter is_converse_call t) + nat n)"
proof -
  have a: "\<exists>r t'. converse E model_id messages t = (Inr r, t')"
    using converse_returns [of E model_id messages t] by blast
  have b: "remote_converse E t model_id messages = Inl e \<longrightarrow>
        fst (converse E model_id messages t) = Inr JNone"
    by (simp add: converse_def converse_try_def)
  obtain c' t' where l: "for_loop E n model_id [1..n] c t = (Inr c', t')"
    using for_loop_total [OF range_no_zero] by blast
  from for_loop_converse_calls [OF range_no_zero l]
  have "length (filter is_converse_call t') = length (filter is_converse_call t) + nat n"
    by simp
  with a b l show ?thesis by blast
qed

text \<open>Witness for C1: the throttled call of \<open>flaky_env\<close> is turned into \<^verbatim>\<open>None\<close>, and a
  loop of four iterations that starts with it makes its four calls.\<close>

theorem converse_errors_never_escape_witness:
  "remote_converse flaky_env [ConverseCall JNone JNone] (JStr ''p1'') (user_message ''hi'')
      = Inl (ClientError ''ThrottlingException'')
   \<and> fst (converse flaky_env (JStr ''p1'') (user_message ''hi'') [ConverseCall JNone JNone]) = Inr JNone
   \<and> (\<exists>c' t'. for_loop flaky_env 4 (JStr ''p1'') [1..4] \<lparr>successful_runs = 0, failed_runs = 0\<rparr>
                 [ConverseCall JNone JNone] = (Inr c', t')
         \<and> length (filter is_converse_call t') = 5)"
  using converse_errors_never_escape [of flaky_env "JStr ''p1''" "user_message ''hi''"
      "[ConverseCall JNone JNone]" "ClientError ''ThrottlingException''" 4
      "\<lparr>successful_runs = 0, failed_runs = 0\<rparr>"]
  by (simp add: flaky_env_def steady_env_def)

text \<open>
  Claim C4, as stated, fails: the extractor guards against absent keys only. A response
  whose \<^verbatim>\<open>output\<close> field is present but holds \<^verbatim>\<open>None\<close> makes the test
  \<^verbatim>\<open>'message' in response['output']\<close> raise \<^verbatim>\<open>TypeError\<close>.
\<close>

theorem extractor_raises_on_ill_typed_field:
  "parse_converse_response (JDict [(''output'', JNone)]) = Inl TypeError"
  by (simp add: parse_converse_response_def)

text \<open>
  Claim C4, amended. On every response of the expected shape, with any of the fields
  \<^verbatim>\<open>output\<close>, \<^verbatim>\<open>message\<close>, \<^verbatim>\<open>content\<close>, \<^verbatim>\<open>text\<close> absent at any level, the extractor
  raises nothing and returns the first text fragment, or the sentinel
  \<^verbatim>\<open>"No text response found"\<close> when there is none.
\<close>

theorem extractor_total_on_shaped_responses:
  assumes "well_shaped response"
  shows "parse_converse_response response = Inr (first_text_or_sentinel response)
       \<and> (text_fragments response = [] \<longrightarrow> parse_converse_response response = Inr no_text)"
proof -
  from assms have "is_dict response" by (simp add: well_shaped_def)
  then obtain kvs where r: "response = JDict kvs" by (rule is_dictE)
  have "parse_converse_response response = Inr (first_text_or_sentinel response)"
  proof (cases "map_of kvs ''output''")
    case None
    with r show ?thesis
      by (simp add: parse_converse_response_def first_text_or_sentinel_def
          text_fragments_def content_items_def)
  next
    case out: (Some out)
    with assms r have d: "is_dict out"
      and rest: "case field ''message'' out of None \<Rightarrow> True
         | Some message \<Rightarrow> is_dict message \<and>
             (case field ''content'' message of None \<Rightarrow> True | Some cs \<Rightarrow> is_dict_list cs)"
      by (simp_all add: well_shaped_def)
    from d obtain kvs2 where o: "out = JDict kvs2" by (rule is_dictE)
    show ?thesis
    proof (cases "map_of kvs2 ''message''")
      case None
      with r out o show ?thesis
        by (simp add: parse_converse_response_def first_text_or_sentinel_def
            text_fragments_def content_items_def)
    next
      case (Some message)
      with rest o have "is_dict message"
        and "case field ''content'' message of None \<Rightarrow> True | Some cs \<Rightarrow> is_dict_list cs"
        by simp_all
      from parse_message_shaped [OF this] r out o Some show ?thesis
        by (simp add: parse_converse_response_def first_text_or_sentinel_def
            text_fragments_def content_items_def)
    qed
  qed
  then show ?thesis by (simp add: first_text_or_sentinel_def)
qed

text \<open>Witness for the amended C4: a response with an empty message yields the
  sentinel, and \<open>ok_response\<close> yields its text.\<close>

theorem extractor_total_on_shaped_responses_witness:
  "well_shaped (JDict [(''output'', JDict [(''message'', JDict [])])])
   \<and> parse_converse_response (JDict [(''output'', JDict [(''message'', JDict [])])])
       = Inr (JStr ''No text response found'')
   \<and> well_shaped ok_response
   \<and> parse_converse_response ok_response = Inr (JStr ''Hello'')"
  using extractor_total_on_shaped_responses [of "JDict [(''output'', JDict [(''message'', JDict [])])]"]
    extractor_total_on_shaped_responses [of ok_response]
  by (simp add: well_shaped_def first_text_or_sentinel_def text_fragments_def content_items_def
      no_text_def ok_response_def)

text \<open>
  Claim C6. The prompt of an iteration is \<^verbatim>\<open>prompts[index % len(prompts)]\<close>, a function of
  the index alone, and it is periodic with period \<^verbatim>\<open>len(prompts)\<close>.
\<close>

theorem prompt_selection_periodic:
  "select_prompt index = Inr (prompts ! nat (index mod int (length prompts)))
   \<and> select_prompt (index + int (length prompts)) = select_prompt index"
  by (simp add: select_prompt_value) (simp add: prompts_def select_prompt_def)

text \<open>Witness for C6: iterations 2 and 6 select the third prompt.\<close>

theorem prompt_selection_periodic_witness:
  "select_prompt 6 = select_prompt 2
   \<and> select_prompt 2 = Inr ''Compare and contrast AWS container services: ECS, EKS, App Runner, Lambda, and Fargate.''"
  using prompt_selection_periodic [of 2]
  by (simp add: prompts_def)

text \<open>
  Claim C2. When the remote creation of the profile raises, the error leaves
  \<open>create_shared_profile\<close> and \<open>main\<close>: the run ends with that error, no converse call
  has been made (no iteration ran), the creation was attempted exactly once (no retry, no
  second profile), and no line of the summary has been printed.
\<close>

theorem provisioning_failure_is_fatal:
  assumes "has_create E"
    and "remote_create E (t @ [Print LogStarting, Print (LogCreatingShared (profile_name_of E))])
           (profile_name_of E) base_model_arn profile_tags = Inl e"
  shows "fst (create_shared_profile E (t @ [Print LogStarting])) = Inl e
    \<and> fst (main E t) = Inl e
    \<and> filter is_converse_call (snd (main E t)) = filter is_converse_call t
    \<and> filter is_create_call (snd (main E t)) =
        filter is_create_call t @ [CreateCall (profile_name_of E) base_model_arn profile_tags]
    \<and> filter is_summary (snd (main E t)) = filter is_summary t"
proof -
  note p = provisioning_rejected [OF assms]
  from main_with_provisioning_failure [OF p]
  have m: "main E t = (Inl e, t @ [Print LogStarting, Print (LogCreatingShared (profile_name_of E)),
                  CreateCall (profile_name_of E) base_model_arn profile_tags,
                  Print (LogErrorCreating e)])"
    by (simp add: main_def)
  from p show ?thesis unfolding m by simp
qed

text \<open>Witness for C2: the run against \<open>rejecting_env\<close>.\<close>

theorem provisioning_failure_is_fatal_witness:
  "has_create rejecting_env
   \<and> remote_create rejecting_env [Print LogStarting, Print (LogCreatingShared (profile_name_of rejecting_env))]
       (profile_name_of rejecting_env) base_model_arn profile_tags
       = Inl (ClientError ''ServiceQuotaExceededException'')
   \<and> fst (main rejecting_env []) = Inl (ClientError ''ServiceQuotaExceededException'')
   \<and> filter is_converse_call (snd (main rejecting_env [])) = []
   \<and> filter is_create_call (snd (main rejecting_env [])) =
        [CreateCall (profile_name_of rejecting_env) base_model_arn profile_tags]
   \<and> filter is_summary (snd (main rejecting_env [])) = []"
  using provisioning_failure_is_fatal [of rejecting_env "[]" "ClientError ''ServiceQuotaExceededException''"]
  by (simp add: rejecting_env_def steady_env_def)

text \<open>
  Claim C3. In a run whose provisioning succeeded, after \<open>k\<close> completed iterations
  (\<open>0 \<le> k \<le> n\<close>) the two counters add up to \<open>k\<close>, the state reached being the one
  the rest of the run continues from; each pass through the loop body adds one to
  exactly one of the two counters; and at the end of the run they add up to the number
  of iterations \<open>n\<close>, which is what the summary is printed from.
\<close>

theorem counters_sum_to_iterations:
  assumes "create_shared_profile E (t @ [Print LogStarting]) = (Inr model_id, t1)"
    and "0 \<le> k" and "k \<le> n"
  shows "(\<exists>c tk. for_loop E n model_id [1..k] \<lparr>successful_runs = 0, failed_runs = 0\<rparr> t1 = (Inr c, tk)
            \<and> successful_runs c + failed_runs c = k
            \<and> for_loop E n model_id [1..n] \<lparr>successful_runs = 0, failed_runs = 0\<rparr> t1
                = for_loop E n model_id [k + 1..n] c tk)
    \<and> (1 \<le> k \<longrightarrow> (\<forall>c tc. \<exists>c' t'. loop_body E n model_id k c tc = (Inr c', t')
            \<and> ((successful_runs c' = successful_runs c + 1 \<and> failed_runs c' = failed_runs c)
               \<or> (successful_runs c' = successful_runs c \<and> failed_runs c' = failed_runs c + 1))))
    \<and> (\<exists>c t2. for_loop E n model_id [1..n] \<lparr>successful_runs = 0, failed_runs = 0\<rparr> t1 = (Inr c, t2)
            \<and> successful_runs c + failed_runs c = n
            \<and> main_with n E t = summary n c t2)"
proof -
  let ?c0 = "\<lparr>successful_runs = 0, failed_runs = 0\<rparr>"
  obtain ck tk where pre: "for_loop E n model_id [1..k] ?c0 t1 = (Inr ck, tk)"
    using for_loop_total [OF range_no_zero] by blast
  from for_loop_counts [OF range_no_zero pre] assms(2)
  have sum_k: "successful_runs ck + failed_runs ck = k" by simp
  have "for_loop E n model_id [1..n] ?c0 t1 = for_loop E n model_id ([1..k] @ [k + 1..n]) ?c0 t1"
    using range_split [OF assms(2,3)] by simp
  also have "\<dots> = for_loop E n model_id [k + 1..n] ck tk"
    using pre by (simp only: for_loop_append prod.case sum.case)
  finally have a: "\<exists>c tk. for_loop E n model_id [1..k] ?c0 t1 = (Inr c, tk)
            \<and> successful_runs c + failed_runs c = k
            \<and> for_loop E n model_id [1..n] ?c0 t1 = for_loop E n model_id [k + 1..n] c tk"
    using pre sum_k by blast
  have b: "1 \<le> k \<longrightarrow> (\<forall>c tc. \<exists>c' t'. loop_body E n model_id k c tc = (Inr c', t')
            \<and> ((successful_runs c' = successful_runs c + 1 \<and> failed_runs c' = failed_runs c)
               \<or> (successful_runs c' = successful_runs c \<and> failed_runs c' = failed_runs c + 1)))"
  proof (intro impI allI)
    fix c tc
    assume "1 \<le> k"
    then have nz: "k \<noteq> 0" by simp
    obtain c' t' where body: "loop_body E n model_id k c tc = (Inr c', t')"
      using loop_body_total [OF nz] by blast
    from loop_body_counts [OF nz body] body
    show "\<exists>c' t'. loop_body E n model_id k c tc = (Inr c', t')
            \<and> ((successful_runs c' = successful_runs c + 1 \<and> failed_runs c' = failed_runs c)
               \<or> (successful_runs c' = successful_runs c \<and> failed_runs c' = failed_runs c + 1))"
      by blast
  qed
  obtain cn tn where all: "for_loop E n model_id [1..n] ?c0 t1 = (Inr cn, tn)"
    using for_loop_total [OF range_no_zero] by blast
  from for_loop_counts [OF range_no_zero all] assms(2,3)
  have sum_n: "successful_runs cn + failed_runs cn = n" by simp
  from assms(1) all have "main_with n E t = summary n cn tn"
    by (simp add: main_with_def Let_def)
  with all sum_n have c: "\<exists>c t2. for_loop E n model_id [1..n] ?c0 t1 = (Inr c, t2)
            \<and> successful_runs c + failed_runs c = n
            \<and> main_with n E t = summary n c t2"
    by blast
  from a b c show ?thesis by blast
qed

text \<open>Witness for C3: the run of four iterations against \<open>flaky_env\<close>, looked at after
  two iterations and at its end.\<close>

theorem counters_sum_to_iterations_witness:
  "create_shared_profile flaky_env ([] @ [Print LogStarting]) =
     (Inr ok_arn,
      [Print LogStarting, Print (LogCreatingShared (profile_name_of flaky_env)),
       CreateCall (profile_name_of flaky_env) base_model_arn profile_tags,
       Print (LogCreated ok_arn)])
   \<and> (0::int) \<le> 2 \<and> (2::int) \<le> 4
   \<and> (\<exists>c tk. for_loop flaky_env 4 ok_arn [1..2] \<lparr>successful_runs = 0, failed_runs = 0\<rparr>
          [Print LogStarting, Print (LogCreatingShared (profile_name_of flaky_env)),
           CreateCall (profile_name_of flaky_env) base_model_arn profile_tags,
           Print (LogCreated ok_arn)] = (Inr c, tk)
        \<and> successful_runs c + failed_runs c = 2)
   \<and> (\<exists>c t2. successful_runs c + failed_runs c = 4
        \<and> main_with 4 flaky_env [] = summary 4 c t2)"
proof -
  have k: "(0::int) \<le> 2" "(2::int) \<le> 4" by simp_all
  from counters_sum_to_iterations [OF flaky_profile k] flaky_profile
  show ?thesis by simp blast
qed

text \<open>
  Claim C5. The script fixes the progress interval at 5. The progress lines a run of
  \<open>n\<close> iterations prints are, in order, those of the iterations \<open>i\<close> in \<open>1, ..., n\<close> that
  5 divides and of no other: the line announcing \<open>i\<close> of \<open>n\<close>, and the rate line whose
  quotient is the number of successful runs counted after iteration \<open>i\<close>, over \<open>i\<close>.
  The rendering of the quotient as a percentage is floating-point output and is not
  modelled.
\<close>

theorem progress_every_fifth_iteration:
  "filter is_progress (snd (for_loop E n model_id [1..n]
       \<lparr>successful_runs = 0, failed_runs = 0\<rparr> t)) =
     filter is_progress t @ concat (map (iteration_progress E n model_id t) [1..n])
   \<and> List.map_filter reported_iteration (snd (for_loop E n model_id [1..n]
       \<lparr>successful_runs = 0, failed_runs = 0\<rparr> t)) =
     List.map_filter reported_iteration t @ filter (\<lambda>i. i mod 5 = 0) [1..n]"
proof -
  let ?t' = "snd (for_loop E n model_id [1..n] \<lparr>successful_runs = 0, failed_runs = 0\<rparr> t)"
  have a: "filter is_progress ?t' =
      filter is_progress t @ concat (map (iteration_progress E n model_id t) [1..n])"
    by (rule for_loop_progress)
  have "List.map_filter reported_iteration ?t' =
      List.map_filter reported_iteration (filter is_progress ?t')"
    by (rule reported_iteration_progress)
  also have "\<dots> = List.map_filter reported_iteration (filter is_progress t)
      @ filter (\<lambda>i. i mod 5 = 0) [1..n]"
    unfolding a by (simp only: map_filter_append reported_iteration_expected)
  finally have "List.map_filter reported_iteration ?t' =
      List.map_filter reported_iteration t @ filter (\<lambda>i. i mod 5 = 0) [1..n]"
    by (simp only: reported_iteration_progress [symmetric])
  with a show ?thesis by simp
qed

text \<open>Witness for C5: ten iterations report at 5 and at 10.\<close>

theorem progress_every_fifth_iteration_witness:
  "filter is_progress (snd (for_loop steady_env 10 (JStr ''p1'') [1..10]
       \<lparr>successful_runs = 0, failed_runs = 0\<rparr> [])) =
     [Print (LogProgress 5 10),
      Print (LogSuccessRate (successes_after steady_env 10 (JStr ''p1'') [] 5) 5),
      Print (LogProgress 10 10),
      Print (LogSuccessRate (successes_after steady_env 10 (JStr ''p1'') [] 10) 10)]
   \<and> List.map_filter reported_iteration (snd (for_loop steady_env 10 (JStr ''p1'') [1..10]
       \<lparr>successful_runs = 0, failed_runs = 0\<rparr> [])) = [5, 10]"
  using progress_every_fifth_iteration [of steady_env 10 "JStr ''p1''" "[]"]
  by (simp add: iteration_progress_def upto_rec1)

text \<open>
  Claim C7. Every call of \<open>run_test\<close> makes its converse call, then sleeps one unit,
  then returns, whatever the outcome of the call. The converse calls and delays of a
  run of \<open>n\<close> iterations are, in order, for each iteration its call, the delay of one
  unit, and a delay of two units exactly when the iteration is not the last.
\<close>

theorem two_tier_pacing:
  "(\<exists>r l. run_test E i model_id t =
       (Inr r, t @ [Print LogRule, Print (LogIteration i), Print LogRule,
                    Print (LogUsingProfile model_id),
                    ConverseCall model_id (user_message (prompts ! nat (i mod 4))),
                    Print l, Sleep 1]))
   \<and> filter is_pacing (snd (for_loop E n model_id [1..n] c t)) =
       filter is_pacing t @ concat (map (iteration_pacing n model_id) [1..n])
   \<and> (\<forall>j \<in> set [1..n]. (Sleep 2 \<in> set (iteration_pacing n model_id j)) = (j \<noteq> n))"
proof -
  have a: "\<exists>r l. run_test E i model_id t =
       (Inr r, t @ [Print LogRule, Print (LogIteration i), Print LogRule,
                    Print (LogUsingProfile model_id),
                    ConverseCall model_id (user_message (prompts ! nat (i mod 4))),
                    Print l, Sleep 1])"
    using run_test_returns [of E i model_id t] by blast
  obtain r t' where l: "for_loop E n model_id [1..n] c t = (r, t')"
    by (cases "for_loop E n model_id [1..n] c t")
  from for_loop_pacing [OF range_no_zero l] l
  have b: "filter is_pacing (snd (for_loop E n model_id [1..n] c t)) =
       filter is_pacing t @ concat (map (iteration_pacing n model_id) [1..n])"
    by simp
  have c: "\<forall>j \<in> set [1..n]. (Sleep 2 \<in> set (iteration_pacing n model_id j)) = (j \<noteq> n)"
    by (auto simp: iteration_pacing_def)
  from a b c show ?thesis by blast
qed

text \<open>Witness for C7: three iterations, the second converse call failing.\<close>

theorem two_tier_pacing_witness:
  "filter is_pacing (snd (for_loop flaky_env 3 (JStr ''p1'') [1..3]
       \<lparr>successful_runs = 0, failed_runs = 0\<rparr> [])) =
     [ConverseCall (JStr ''p1'') (user_message (prompts ! 1)), Sleep 1, Sleep 2,
      ConverseCall (JStr ''p1'') (user_message (prompts ! 2)), Sleep 1, Sleep 2,
      ConverseCall (JStr ''p1'') (user_message (prompts ! 3)), Sleep 1]
   \<and> Sleep 2 \<in> set (iteration_pacing 3 (JStr ''p1'') 2)
   \<and> Sleep 2 \<notin> set (iteration_pacing 3 (JStr ''p1'') 3)"
  using two_tier_pacing [of flaky_env 1 "JStr ''p1''" "[]" 3 "\<lparr>successful_runs = 0, failed_runs = 0\<rparr>"]
  by (simp add: upto_rec1 iteration_pacing_def)

text \<open>
  Claim C8, as stated, fails: when the provisioning call raises, the exception leaves
  \<open>main\<close> before the counters exist, and no line of the summary is printed.
\<close>

theorem no_summary_after_provisioning_failure:
  "fst (main rejecting_env []) = Inl (ClientError ''ServiceQuotaExceededException'')
   \<and> filter is_summary (snd (main rejecting_env [])) = []"
  by (simp add: main_def main_with_def rejecting_env_def steady_env_def create_shared_profile_def
      create_inference_profile_def create_inference_profile_try_def Let_def)

text \<open>
  Claim C8, amended. When the provisioning call raises, the run ends at once with that
  error: the last thing it does is print the provisioner's error line; no iteration is
  attempted and no summary is produced.
\<close>

theorem provisioning_failure_aborts_without_summary:
  assumes "has_create E"
    and "remote_create E (t @ [Print LogStarting, Print (LogCreatingShared (profile_name_of E))])
           (profile_name_of E) base_model_arn profile_tags = Inl e"
  shows "main_with n E t =
     (Inl e, t @ [Print LogStarting, Print (LogCreatingShared (profile_name_of E)),
                  CreateCall (profile_name_of E) base_model_arn profile_tags,
                  Print (LogErrorCreating e)])
    \<and> length (filter is_converse_call (snd (main_with n E t))) = length (filter is_converse_call t)
    \<and> length (filter is_summary (snd (main_with n E t))) = length (filter is_summary t)"
proof -
  note m = main_with_provisioning_failure [OF provisioning_rejected [OF assms], of n]
  show ?thesis unfolding m by simp
qed

text \<open>Witness for the amended C8: a run configured for four iterations against
  \<open>rejecting_env\<close>.\<close>

theorem provisioning_failure_aborts_without_summary_witness:
  "has_create rejecting_env
   \<and> remote_create rejecting_env [Print LogStarting, Print (LogCreatingShared (profile_name_of rejecting_env))]
       (profile_name_of rejecting_env) base_model_arn profile_tags
       = Inl (ClientError ''ServiceQuotaExceededException'')
   \<and> main_with 4 rejecting_env [] =
     (Inl (ClientError ''ServiceQuotaExceededException''),
      [Print LogStarting, Print (LogCreatingShared (profile_name_of rejecting_env)),
       CreateCall (profile_name_of rejecting_env) base_model_arn profile_tags,
       Print (LogErrorCreating (ClientError ''ServiceQuotaExceededException''))])
   \<and> length (filter is_converse_call (snd (main_with 4 rejecting_env []))) = 0
   \<and> length (filter is_summary (snd (main_with 4 rejecting_env []))) = 0"
  using provisioning_failure_aborts_without_summary
    [of rejecting_env "[]" "ClientError ''ServiceQuotaExceededException''" 4]
  by (simp add: rejecting_env_def steady_env_def)

text \<open>
  Claim C9, as stated, fails: the loop tests the truth value of the response
  (\<^verbatim>\<open>if response:\<close>), not whether it is \<^verbatim>\<open>None\<close>. An empty dictionary returned by
  the service is returned by \<open>converse\<close> and \<open>run_test\<close>, is not \<^verbatim>\<open>None\<close>, and the
  iteration is counted as failed.
\<close>

theorem empty_response_counted_as_failure:
  "fst (run_test empty_response_env 1 (JStr ''p1'') []) = Inr (JDict [])
   \<and> JDict [] \<noteq> JNone
   \<and> fst (loop_body empty_response_env 50 (JStr ''p1'') 1
            \<lparr>successful_runs = 0, failed_runs = 0\<rparr> [])
       = Inr \<lparr>successful_runs = 0, failed_runs = 1\<rparr>"
  by (simp add: loop_body_def classify_def report_progress_def run_test_def select_prompt_value
      converse_def converse_try_def empty_response_env_def steady_env_def
      parse_converse_response_def no_text_def Let_def)

text \<open>
  Claim C9, amended. An iteration is counted as successful exactly when the value
  \<open>run_test\<close> returns, which is the value \<open>converse\<close> returned, is true in Python's
  sense, and as failed otherwise; \<^verbatim>\<open>None\<close> is not true. A response that parses only to
  the sentinel is returned unchanged by \<open>converse\<close>, so it counts as a success whenever
  it is true.
\<close>

theorem success_iff_truthy_response:
  "(i \<noteq> 0 \<and> run_test E i model_id t = (Inr r, t1) \<longrightarrow>
      fst (loop_body E n model_id i c t) =
        Inr (if py_truthy r then c\<lparr>successful_runs := successful_runs c + 1\<rparr>
             else c\<lparr>failed_runs := failed_runs c + 1\<rparr>))
   \<and> fst (run_test E i model_id t) =
       fst (converse E model_id (user_message (prompts ! nat (i mod 4)))
             (t @ [Print LogRule, Print (LogIteration i), Print LogRule,
                   Print (LogUsingProfile model_id)]))
   \<and> (remote_converse E t model_id messages = Inr response
        \<and> parse_converse_response response = Inr no_text \<longrightarrow>
      fst (converse E model_id messages t) = Inr response)
   \<and> \<not> py_truthy JNone"
  using loop_body_classifies [of i E model_id t r t1 n c] run_test_converse [of E i model_id t]
    converse_sentinel [of E t model_id messages response]
  by simp

text \<open>Witness for the amended C9: an iteration against \<open>steady_env\<close> is a success; the
  empty response of \<open>empty_response_env\<close> parses to the sentinel and is returned.\<close>

theorem success_iff_truthy_response_witness:
  "run_test steady_env 1 (JStr ''p1'') [] =
     (Inr ok_response,
      [Print LogRule, Print (LogIteration 1), Print LogRule, Print (LogUsingProfile (JStr ''p1'')),
       ConverseCall (JStr ''p1'') (user_message (prompts ! 1)),
       Print (LogResponseText (JStr ''Hello'')), Sleep 1])
   \<and> fst (loop_body steady_env 50 (JStr ''p1'') 1 \<lparr>successful_runs = 0, failed_runs = 0\<rparr> [])
       = Inr \<lparr>successful_runs = 1, failed_runs = 0\<rparr>
   \<and> remote_converse empty_response_env [] (JStr ''p1'') (user_message ''hi'') = Inr (JDict [])
   \<and> parse_converse_response (JDict []) = Inr no_text
   \<and> fst (converse empty_response_env (JStr ''p1'') (user_message ''hi'') []) = Inr (JDict [])"
proof -
  have r: "run_test steady_env 1 (JStr ''p1'') [] =
     (Inr ok_response,
      [Print LogRule, Print (LogIteration 1), Print LogRule, Print (LogUsingProfile (JStr ''p1'')),
       ConverseCall (JStr ''p1'') (user_message (prompts ! 1)),
       Print (LogResponseText (JStr ''Hello'')), Sleep 1])"
    by (simp add: run_test_def select_prompt_value converse_def converse_try_def steady_env_def
        parse_converse_response_def parse_message_def ok_response_def Let_def)
  have e: "remote_converse empty_response_env [] (JStr ''p1'') (user_message ''hi'') = Inr (JDict [])"
    by (simp add: empty_response_env_def steady_env_def)
  have p: "parse_converse_response (JDict []) = Inr no_text"
    by (simp add: parse_converse_response_def)
  from success_iff_truthy_response [of 1 steady_env "JStr ''p1''" "[]" ok_response _ 50
      "\<lparr>successful_runs = 0, failed_runs = 0\<rparr>"] r
  have a: "fst (loop_body steady_env 50 (JStr ''p1'') 1 \<lparr>successful_runs = 0, failed_runs = 0\<rparr> [])
       = Inr \<lparr>successful_runs = 1, failed_runs = 0\<rparr>"
    by (simp add: ok_response_def)
  from success_iff_truthy_response [of _ empty_response_env "JStr ''p1''" "[]" _ _ _ _
      "user_message ''hi''" "JDict []"] e p
  have b: "fst (converse empty_response_env (JStr ''p1'') (user_message ''hi'') []) = Inr (JDict [])"
    by simp
  from r a e p b show ?thesis by simp
qed

text \<open>
  Claim C10. When the creation call succeeds with a dictionary that holds no
  \<^verbatim>\<open>inferenceProfileArn\<close>, the subscript of line 64 raises \<^verbatim>\<open>KeyError\<close>; nothing
  catches it, and the run ends with it before any converse call, as it does when the
  creation is rejected.
\<close>

theorem missing_arn_is_fatal:
  assumes "has_create E"
    and "remote_create E (t @ [Print LogStarting, Print (LogCreatingShared (profile_name_of E))])
           (profile_name_of E) base_model_arn profile_tags = Inr (JDict kvs)"
    and "map_of kvs ''inferenceProfileArn'' = None"
  shows "fst (create_shared_profile E (t @ [Print LogStarting])) = Inl KeyError
    \<and> main_with n E t =
     (Inl KeyError, t @ [Print LogStarting, Print (LogCreatingShared (profile_name_of E)),
                  CreateCall (profile_name_of E) base_model_arn profile_tags,
                  Print (LogCreated (JStr ''Unknown''))])
    \<and> filter is_converse_call (snd (main_with n E t)) = filter is_converse_call t"
proof -
  note p = provisioning_without_arn [OF assms]
  note m = main_with_provisioning_failure [OF p, of n]
  from p show ?thesis unfolding m by simp
qed

text \<open>Witness for C10: the run against \<open>arnless_env\<close>.\<close>

theorem missing_arn_is_fatal_witness:
  "has_create arnless_env
   \<and> remote_create arnless_env [Print LogStarting, Print (LogCreatingShared (profile_name_of arnless_env))]
       (profile_name_of arnless_env) base_model_arn profile_tags = Inr (JDict [(''status'', JStr ''ACTIVE'')])
   \<and> map_of [(''status'', JStr ''ACTIVE'')] ''inferenceProfileArn'' = None
   \<and> fst (main_with 50 arnless_env []) = Inl KeyError
   \<and> filter is_converse_call (snd (main_with 50 arnless_env [])) = []"
  using missing_arn_is_fatal [of arnless_env "[]" "[(''status'', JStr ''ACTIVE'')]" 50]
  by (simp add: arnless_env_def steady_env_def)

end
